theory Spec2Isabelle
  imports Main "HOL-Library.Log_Nat"
begin

section \<open>JavaScript numbers\<close>

text \<open>
  A \<open>number\<close> is an IEEE 754 double: not-a-number, one of the two infinities, or a finite
  value, which is a rational. The two zeros are not told apart (no operation below
  distinguishes them). The sum of two finite values is the exact sum rounded to the
  nearest double, ties to even; an exact sum of magnitude at least \<open>2^1024 - 2^970\<close>
  (half a unit in the last place above \<open>Number.MAX_VALUE\<close>) rounds to an infinity.
\<close>

datatype number = NaN | PosInfinity | NegInfinity | Finite rat

definition pow2 :: "int \<Rightarrow> rat" where
  "pow2 e = (if 0 \<le> e then 2 ^ nat e else 1 / 2 ^ nat (- e))"

definition floor_log2 :: "rat \<Rightarrow> int" where
  "floor_log2 r =
     (let (p, q) = quotient_of r; d = bitlen p - bitlen q
      in if pow2 d \<le> r then d else d - 1)"

definition round_half_even :: "rat \<Rightarrow> int" where
  "round_half_even x =
     (let f = \<lfloor>x\<rfloor>; d = x - of_int f
      in if d < 1 / 2 then f
         else if 1 / 2 < d then f + 1
         else if even f then f else f + 1)"

definition nearest_double :: "rat \<Rightarrow> rat" where
  "nearest_double r =
     (if r = 0 then 0
      else let e = max (floor_log2 \<bar>r\<bar>) (- 1022);
               ulp = pow2 (e - 52)
           in sgn r * of_int (round_half_even (\<bar>r\<bar> / ulp)) * ulp)"

definition overflow_threshold :: rat where
  "overflow_threshold = 2 ^ 1024 - 2 ^ 970"

definition to_number :: "rat \<Rightarrow> number" where
  "to_number r =
     (if overflow_threshold \<le> r then PosInfinity
      else if r \<le> - overflow_threshold then NegInfinity
      else Finite (nearest_double r))"

text \<open>The operators \<open><\<close>, \<open>>\<close>, \<open><=\<close>, \<open>===\<close>, unary and binary \<open>-\<close>, \<open>+\<close> and \<open>Number.isFinite\<close>.\<close>

fun num_lt :: "number \<Rightarrow> number \<Rightarrow> bool" where
  "num_lt NaN b = False"
| "num_lt a NaN = False"
| "num_lt (Finite x) (Finite y) = (x < y)"
| "num_lt a NegInfinity = False"
| "num_lt PosInfinity b = False"
| "num_lt NegInfinity b = True"
| "num_lt a PosInfinity = True"

definition num_gt :: "number \<Rightarrow> number \<Rightarrow> bool" where
  "num_gt a b = num_lt b a"

definition num_eq :: "number \<Rightarrow> number \<Rightarrow> bool" where
  "num_eq a b = (a \<noteq> NaN \<and> a = b)"

definition num_le :: "number \<Rightarrow> number \<Rightarrow> bool" where
  "num_le a b = (num_lt a b \<or> num_eq a b)"

definition num_ge :: "number \<Rightarrow> number \<Rightarrow> bool" where
  "num_ge a b = num_le b a"

fun num_neg :: "number \<Rightarrow> number" where
  "num_neg NaN = NaN"
| "num_neg PosInfinity = NegInfinity"
| "num_neg NegInfinity = PosInfinity"
| "num_neg (Finite x) = Finite (- x)"

fun num_add :: "number \<Rightarrow> number \<Rightarrow> number" where
  "num_add NaN b = NaN"
| "num_add a NaN = NaN"
| "num_add (Finite x) (Finite y) = to_number (x + y)"
| "num_add PosInfinity NegInfinity = NaN"
| "num_add NegInfinity PosInfinity = NaN"
| "num_add PosInfinity b = PosInfinity"
| "num_add NegInfinity b = NegInfinity"
| "num_add a PosInfinity = PosInfinity"
| "num_add a NegInfinity = NegInfinity"

definition num_sub :: "number \<Rightarrow> number \<Rightarrow> number" where
  "num_sub a b = num_add a (num_neg b)"

fun isFinite :: "number \<Rightarrow> bool" where
  "isFinite (Finite x) = True"
| "isFinite a = False"

section \<open>String.prototype.customPadStart (src/demo/customPadstart.ts)\<close>

text \<open>
  A string is the list of its code units, so \<open>length\<close> is the source's \<open>.length\<close>; as a
  number it is \<open>Finite (of_nat (length s))\<close>. The receiver is a string, on which
  \<open>String(this)\<close> is the identity. \<open>targetLength\<close> is any number; the optional
  \<open>padString\<close> is an option whose absence selects the default \<open>" "\<close> of the signature.

  A string cannot grow without bound: a concatenation whose result would be longer than
  the engine's greatest string length throws \<open>RangeError: Invalid string length\<close>. That
  length is the parameter \<open>maxLength\<close> of the functions below (at most \<open>2^53 - 1\<close> by the
  language definition, smaller in practice).
\<close>

datatype string_result = Returns string | ThrowsRangeError

definition string_concat :: "nat \<Rightarrow> string \<Rightarrow> string \<Rightarrow> string_result" where
  "string_concat maxLength a b =
     (if maxLength < length a + length b then ThrowsRangeError else Returns (a @ b))"

text \<open>
  \<open>s.slice(start, end)\<close>: each bound is converted by \<open>ToIntegerOrInfinity\<close> (\<open>NaN\<close> to 0,
  a fraction truncated towards zero), a negative bound counts from the end, and both
  are clamped to \<open>0 .. length\<close>.
\<close>

fun ToIntegerOrInfinity :: "number \<Rightarrow> number" where
  "ToIntegerOrInfinity NaN = Finite 0"
| "ToIntegerOrInfinity PosInfinity = PosInfinity"
| "ToIntegerOrInfinity NegInfinity = NegInfinity"
| "ToIntegerOrInfinity (Finite x) = Finite (of_int (if 0 \<le> x then \<lfloor>x\<rfloor> else \<lceil>x\<rceil>))"

definition slice_bound :: "int \<Rightarrow> number \<Rightarrow> int" where
  "slice_bound len n =
     (case ToIntegerOrInfinity n of
        NegInfinity \<Rightarrow> 0
      | PosInfinity \<Rightarrow> len
      | Finite i \<Rightarrow> if i < 0 then max (len + \<lfloor>i\<rfloor>) 0 else min \<lfloor>i\<rfloor> len
      | NaN \<Rightarrow> 0)"

definition slice :: "string \<Rightarrow> number \<Rightarrow> number \<Rightarrow> string" where
  "slice s start end =
     (let len = int (length s);
          from = slice_bound len start;
          to = slice_bound len end
      in if to \<le> from then [] else drop (nat from) (take (nat to) s))"

text \<open>
  The loop \<open>while (repeated.length < needed) repeated += padString\<close> has no bound of its
  own; it is a partial function, and \<open>None\<close> stands for a call that never returns.
\<close>

partial_function (option) pad_loop ::
  "nat \<Rightarrow> string \<Rightarrow> string \<Rightarrow> number \<Rightarrow> string_result option"
where [code]:
  "pad_loop maxLength repeated padString needed =
     (if num_lt (Finite (of_nat (length repeated))) needed
      then (case string_concat maxLength repeated padString of
              ThrowsRangeError \<Rightarrow> Some ThrowsRangeError
            | Returns repeated' \<Rightarrow> pad_loop maxLength repeated' padString needed)
      else Some (Returns repeated))"

definition padString_of :: "string option \<Rightarrow> string" where
  "padString_of padArg = (case padArg of None \<Rightarrow> '' '' | Some p \<Rightarrow> p)"

definition customPadStart ::
  "nat \<Rightarrow> string \<Rightarrow> number \<Rightarrow> string option \<Rightarrow> string_result option"
where
  "customPadStart maxLength this targetLength padArg =
     (let padString = padString_of padArg;
          str = this;
          needed = num_sub targetLength (Finite (of_nat (length str)))
      in if num_le needed (Finite 0) then Some (Returns str)
         else (case pad_loop maxLength [] padString needed of
                 None \<Rightarrow> None
               | Some ThrowsRangeError \<Rightarrow> Some ThrowsRangeError
               | Some (Returns repeated) \<Rightarrow>
                   Some (string_concat maxLength (slice repeated (Finite 0) needed) str)))"

section \<open>Exceptions and the console\<close>

text \<open>
  A call either returns or throws an \<open>Error\<close> carrying its message. The outcome of a
  call on an object is how it completed, the object's fields afterwards (a throw does not
  undo earlier writes) and the console calls it made, in order. An argument of a console
  call is a string, a number, a template literal (the parts it concatenates) or an array.
\<close>

datatype error = Error (message: string)

datatype completion = Returned | Threw error

datatype js_val = S string | N number | T "js_val list" | A "js_val list"

datatype console_call = console_log "js_val list" | console_error "js_val list"

datatype 'obj outcome =
  Outcome (completion: completion) (object: 'obj) (console: "console_call list")

section \<open>class BankOfKigali (src/unnamed/part_009)\<close>

text \<open>
  The private fields \<open>_accountBalance\<close> and \<open>_loanBalance\<close> are the record's fields
  \<open>priv_accountBalance\<close> and \<open>priv_loanBalance\<close>. Every setter starts with
  \<open>Number(...)\<close> of its argument; the functions below take that number (the argument
  itself when it is a number, the numeric value of a string or \<open>NaN\<close> otherwise) and are
  named after the setter with the prefix \<open>set_\<close>, the getters with \<open>get_\<close>.
\<close>

record BankOfKigali =
  priv_accountBalance :: number
  priv_loanBalance :: number

definition new_BankOfKigali :: BankOfKigali where
  "new_BankOfKigali = \<lparr>priv_accountBalance = Finite 0, priv_loanBalance = Finite 0\<rparr>"

definition get_accountBalance :: "BankOfKigali \<Rightarrow> number" where
  "get_accountBalance this = priv_accountBalance this"

definition get_loanBalance :: "BankOfKigali \<Rightarrow> number" where
  "get_loanBalance this = priv_loanBalance this"

definition set_accountBalance :: "BankOfKigali \<Rightarrow> number \<Rightarrow> BankOfKigali outcome" where
  "set_accountBalance this balance =
     (if isFinite balance
      then Outcome Returned (this\<lparr>priv_accountBalance := balance\<rparr>) []
      else Outcome (Threw (Error ''Number is not finite and invalid ...'')) this [])"

definition set_loanBalance :: "BankOfKigali \<Rightarrow> number \<Rightarrow> BankOfKigali outcome" where
  "set_loanBalance this balance =
     (if isFinite balance
      then Outcome Returned (this\<lparr>priv_loanBalance := balance\<rparr>) []
      else Outcome (Threw (Error ''Number is not finite and invalid ...'')) this [])"

definition set_deposit :: "BankOfKigali \<Rightarrow> number \<Rightarrow> BankOfKigali outcome" where
  "set_deposit this balance =
     (if num_lt balance (Finite 0)
      then Outcome (Threw (Error ''Amount should be positive'')) this []
      else if isFinite balance
      then (let this' = this\<lparr>priv_accountBalance :=
                                 num_add (priv_accountBalance this) balance\<rparr>
            in Outcome Returned this'
                 [console_log [T [S ''You have successfully Deposited: '', N balance]],
                  console_log [T [S ''New Balance is: '', N (get_accountBalance this')]]])
      else Outcome (Threw (Error ''Number is not finite and invalid ...'')) this [])"

text \<open>
  \<open>this.accountBalance -= balance\<close> reads through the getter and writes through the
  setter \<open>set_accountBalance\<close>, whose throw leaves the setter \<open>withdraw\<close> at once.
\<close>

definition set_withdraw :: "BankOfKigali \<Rightarrow> number \<Rightarrow> BankOfKigali outcome" where
  "set_withdraw this balance =
     (if num_lt balance (Finite 0)
      then Outcome Returned this [console_log [S ''Amount should be positive'']]
      else if num_gt balance (get_accountBalance this)
      then Outcome Returned this [console_log [S ''Insufficient Funds!'']]
      else if num_lt balance (get_accountBalance this)
      then (case set_accountBalance this (num_sub (get_accountBalance this) balance) of
              Outcome Returned this' out \<Rightarrow>
                Outcome Returned this'
                  (out @ [console_log [S ''you have withdrown the amount: '', N balance],
                          console_log [S ''New Balance: '', N (priv_accountBalance this')]])
            | Outcome (Threw e) this' out \<Rightarrow> Outcome (Threw e) this' out)
      else Outcome Returned this [])"

text \<open>
  A client's operations on one account, each run on the fields the previous one left,
  whether it returned or threw (a caller that catches the exception and goes on).
\<close>

datatype bank_op =
  Deposit number | Withdraw number | SetAccountBalance number | SetLoanBalance number

fun bank_step :: "BankOfKigali \<Rightarrow> bank_op \<Rightarrow> BankOfKigali outcome" where
  "bank_step this (Deposit a) = set_deposit this a"
| "bank_step this (Withdraw a) = set_withdraw this a"
| "bank_step this (SetAccountBalance a) = set_accountBalance this a"
| "bank_step this (SetLoanBalance a) = set_loanBalance this a"

fun bank_run :: "BankOfKigali \<Rightarrow> bank_op list \<Rightarrow> BankOfKigali" where
  "bank_run this [] = this"
| "bank_run this (op # ops) = bank_run (object (bank_step this op)) ops"

section \<open>class BankAccount (src/unnamed/part_010)\<close>

record BankAccount =
  priv_balance :: number

definition new_BankAccount :: BankAccount where
  "new_BankAccount = \<lparr>priv_balance = Finite 0\<rparr>"

definition get_balance :: "BankAccount \<Rightarrow> number" where
  "get_balance this = priv_balance this"

definition BankAccount_set_deposit :: "BankAccount \<Rightarrow> number \<Rightarrow> BankAccount outcome" where
  "BankAccount_set_deposit this amount =
     (if num_gt amount (Finite 0)
      then Outcome Returned (this\<lparr>priv_balance := num_add (priv_balance this) amount\<rparr>)
             [console_log [T [S ''Deposited: '', N amount]]]
      else Outcome Returned this [console_log [S ''Deposit must be a positive number.'']])"

definition BankAccount_set_withdraw :: "BankAccount \<Rightarrow> number \<Rightarrow> BankAccount outcome" where
  "BankAccount_set_withdraw this amount =
     (if num_le amount (Finite 0)
      then Outcome Returned this [console_log [S ''Withdrawal must be positive.'']]
      else if num_gt amount (priv_balance this)
      then Outcome Returned this [console_log [S ''Insufficient funds.'']]
      else Outcome Returned (this\<lparr>priv_balance := num_sub (priv_balance this) amount\<rparr>)
             [console_log [T [S ''Withdrew: '', N amount]]])"

section \<open>Promises (src/unnamed/part_008, src/demo/interface.ts)\<close>

text \<open>
  A promise is pending, fulfilled with a value or rejected with an error. The executor's
  \<open>resolve\<close> and \<open>reject\<close> settle a pending promise and leave a settled one as it is.
  The number drawn by \<open>Math.random()\<close> is the executor's parameter.
\<close>

datatype 'a promise_state = Pending | Fulfilled 'a | Rejected error

definition resolve :: "'a \<Rightarrow> 'a promise_state \<Rightarrow> 'a promise_state" where
  "resolve v st = (case st of Pending \<Rightarrow> Fulfilled v | _ \<Rightarrow> st)"

definition reject :: "error \<Rightarrow> 'a promise_state \<Rightarrow> 'a promise_state" where
  "reject e st = (case st of Pending \<Rightarrow> Rejected e | _ \<Rightarrow> st)"

definition examplePromise :: "number \<Rightarrow> string promise_state" where
  "examplePromise random_num =
     (if num_gt random_num (Finite (1 / 2))
      then resolve ''The Promise resolved successfully'' Pending
      else reject (Error ''The promises failed to resolve.......! try to handle the error!'')
             Pending)"

text \<open>
  \<open>p.then(f)\<close> runs \<open>f\<close> on the value of a fulfilled \<open>p\<close> and passes a rejection on;
  \<open>p.catch(g)\<close> runs \<open>g\<close> on the error of a rejected \<open>p\<close>. The handlers of the
  sources only write to the console and return \<open>undefined\<close>, so a handler is the list of
  console calls it makes and the derived promise carries \<open>()\<close>.
\<close>

definition promise_then ::
  "'a promise_state \<Rightarrow> ('a \<Rightarrow> console_call list) \<Rightarrow> unit promise_state \<times> console_call list"
where
  "promise_then p onFulfilled =
     (case p of
        Fulfilled v \<Rightarrow> (Fulfilled (), onFulfilled v)
      | Rejected e \<Rightarrow> (Rejected e, [])
      | Pending \<Rightarrow> (Pending, []))"

definition promise_catch ::
  "unit promise_state \<Rightarrow> (error \<Rightarrow> console_call list) \<Rightarrow> unit promise_state \<times> console_call list"
where
  "promise_catch p onRejected =
     (case p of
        Rejected e \<Rightarrow> (Fulfilled (), onRejected e)
      | Fulfilled v \<Rightarrow> (Fulfilled v, [])
      | Pending \<Rightarrow> (Pending, []))"

definition examplePromise_handlers :: "number \<Rightarrow> console_call list" where
  "examplePromise_handlers random_num =
     (let (p1, out1) = promise_then (examplePromise random_num)
                         (\<lambda>result. [console_log [S result]]);
          (p2, out2) = promise_catch p1
                         (\<lambda>error. [console_error [S ''Error'', S (message error)]])
      in out1 @ out2)"

text \<open>
  For \<open>Promise.all\<close> a promise also has the time, in milliseconds after its creation, at
  which it settles: the delay of the \<open>setTimeout\<close> that calls \<open>resolve\<close>, or 0 when the
  executor settles it at once. \<open>Promise.all\<close> rejects with the error of the rejected
  promise that settles first (the earlier one in the array when two settle together);
  with none rejected and all fulfilled it fulfils, when the last has settled, with the
  values in the order of the array.
\<close>

datatype 'a promise = Promise (settles_at: nat) (state: "'a promise_state")

definition promise_1 :: "string promise" where
  "promise_1 = Promise 2000 (resolve ''Promise 1 resoved successfully'' Pending)"

definition promise_2 :: "string promise" where
  "promise_2 = Promise 1000 (resolve ''Promise 2 resolved Now!'' Pending)"

definition promise_3 :: "number \<Rightarrow> string promise" where
  "promise_3 randomNumber =
     Promise 0
       (if num_gt randomNumber (Finite (1 / 2))
        then resolve ''Promise 3 resolves successfully '' Pending
        else reject (Error ''There is Error resolving the promse Three!!'') Pending)"

fun first_rejection :: "'a promise list \<Rightarrow> (nat \<times> error) option" where
  "first_rejection [] = None"
| "first_rejection (p # ps) =
     (case state p of
        Rejected e \<Rightarrow>
          (case first_rejection ps of
             None \<Rightarrow> Some (settles_at p, e)
           | Some (t, e') \<Rightarrow> if settles_at p \<le> t then Some (settles_at p, e) else Some (t, e'))
      | _ \<Rightarrow> first_rejection ps)"

fun fulfilled_values :: "'a promise list \<Rightarrow> 'a list option" where
  "fulfilled_values [] = Some []"
| "fulfilled_values (p # ps) =
     (case state p of
        Fulfilled v \<Rightarrow> map_option ((#) v) (fulfilled_values ps)
      | _ \<Rightarrow> None)"

definition Promise_all :: "'a promise list \<Rightarrow> 'a list promise" where
  "Promise_all ps =
     (case first_rejection ps of
        Some (t, e) \<Rightarrow> Promise t (Rejected e)
      | None \<Rightarrow>
          (case fulfilled_values ps of
             Some vs \<Rightarrow> Promise (fold max (map settles_at ps) 0) (Fulfilled vs)
           | None \<Rightarrow> Promise 0 Pending))"

definition Promise_all_demo :: "number \<Rightarrow> string list promise" where
  "Promise_all_demo randomNumber = Promise_all [promise_1, promise_2, promise_3 randomNumber]"

definition Promise_all_handlers :: "number \<Rightarrow> console_call list" where
  "Promise_all_handlers randomNumber =
     (let (p1, out1) = promise_then (state (Promise_all_demo randomNumber))
                         (\<lambda>result. [console_log [A (map S result)]]);
          (p2, out2) = promise_catch p1
                         (\<lambda>error. [console_error
                                     [S ''There was an error resolving one of the promises'',
                                      S (message error)]])
      in out1 @ out2)"

section \<open>class Stack<T> (src/unnamed/part_004)\<close>

text \<open>
  The private array \<open>items\<close> is a list whose last element is the top. A method returns
  its result and the object afterwards; \<open>undefined\<close> is \<open>None\<close>. Reading an array at an
  index outside \<open>0 .. length - 1\<close> gives \<open>undefined\<close>, and \<open>Array.prototype.pop\<close> on
  an empty array returns \<open>undefined\<close> and leaves it empty.
\<close>

record 'a Stack =
  items :: "'a list"

definition new_Stack :: "'a Stack" where
  "new_Stack = \<lparr>items = []\<rparr>"

definition array_index :: "'a list \<Rightarrow> int \<Rightarrow> 'a option" where
  "array_index xs i = (if 0 \<le> i \<and> i < int (length xs) then Some (xs ! nat i) else None)"

definition array_pop :: "'a list \<Rightarrow> 'a option \<times> 'a list" where
  "array_pop xs = (if xs = [] then (None, []) else (Some (last xs), butlast xs))"

definition push :: "'a Stack \<Rightarrow> 'a \<Rightarrow> 'a Stack" where
  "push this item = this\<lparr>items := items this @ [item]\<rparr>"

definition pop :: "'a Stack \<Rightarrow> 'a option \<times> 'a Stack" where
  "pop this = (let (r, xs) = array_pop (items this) in (r, this\<lparr>items := xs\<rparr>))"

definition peek :: "'a Stack \<Rightarrow> 'a option \<times> 'a Stack" where
  "peek this = (array_index (items this) (int (length (items this)) - 1), this)"

definition isEmpty :: "'a Stack \<Rightarrow> bool \<times> 'a Stack" where
  "isEmpty this = (length (items this) = 0, this)"

text \<open>
  A sequence of method calls on one stack. \<open>pushes\<close> counts the calls of \<open>push\<close>;
  \<open>successful_pops\<close> counts the calls of \<open>pop\<close> made on a stack that held an item.
\<close>

datatype 'a call = Push 'a | Pop | Peek | IsEmpty

fun exec :: "'a Stack \<Rightarrow> 'a call \<Rightarrow> 'a Stack" where
  "exec this (Push x) = push this x"
| "exec this Pop = snd (pop this)"
| "exec this Peek = snd (peek this)"
| "exec this IsEmpty = snd (isEmpty this)"

fun run :: "'a Stack \<Rightarrow> 'a call list \<Rightarrow> 'a Stack" where
  "run this [] = this"
| "run this (c # cs) = run (exec this c) cs"

fun pushes :: "'a call list \<Rightarrow> nat" where
  "pushes [] = 0"
| "pushes (Push x # cs) = Suc (pushes cs)"
| "pushes (c # cs) = pushes cs"

fun successful_pops :: "'a Stack \<Rightarrow> 'a call list \<Rightarrow> nat" where
  "successful_pops this [] = 0"
| "successful_pops this (Pop # cs) =
     (if items this = [] then 0 else 1) + successful_pops (exec this Pop) cs"
| "successful_pops this (c # cs) = successful_pops (exec this c) cs"

section \<open>Verification: numbers\<close>

lemma num_lt_irrefl: "\<not> num_lt a a"
  by (cases a) simp_all

lemma num_lt_asym: "num_lt a b \<Longrightarrow> \<not> num_lt b a"
  by (cases a; cases b) simp_all

text \<open>Rounding leaves a power of two as it is.\<close>

lemma floor_log2_power2: "floor_log2 (2 ^ n) = int n"
proof -
  have q: "quotient_of ((2::rat) ^ n) = (2 ^ n, 1)"
    using quotient_of_int [of "2 ^ n"] by (simp add: Rat.of_int_def)
  have b: "bitlen ((2::int) ^ n) = int n + 1"
    using bitlen_pow2 [of 1 n] by (simp add: bitlen_alt_def)
  have "bitlen (1::int) = 1" by (simp add: bitlen_alt_def)
  with q b show ?thesis
    by (simp add: floor_log2_def pow2_def)
qed

lemma round_half_even_of_int: "round_half_even (of_int k) = k"
  by (simp add: round_half_even_def)

lemma nearest_double_power2: "nearest_double (2 ^ n) = 2 ^ n"
proof -
  have "\<bar>(2::rat) ^ n\<bar> / pow2 (int n - 52) = of_int (2 ^ 52)"
    by (cases "52 \<le> n") (simp_all add: pow2_def nat_diff_distrib power_diff flip: power_add)
  then have "round_half_even (\<bar>(2::rat) ^ n\<bar> / pow2 (int n - 52)) = 2 ^ 52"
    by (simp only: round_half_even_of_int)
  moreover have "of_int (2 ^ 52) * pow2 (int n - 52) = (2::rat) ^ n"
    by (cases "52 \<le> n") (simp_all add: pow2_def nat_diff_distrib power_diff flip: power_add)
  ultimately show ?thesis
    by (simp add: nearest_double_def floor_log2_power2 Let_def max_def
          del: of_int_power of_int_numeral)
qed

text \<open>An integer of magnitude below \<open>2^53\<close> is a double: rounding leaves it as it is.\<close>

lemma floor_log2_of_int:
  assumes "0 < k"
  shows "floor_log2 (of_int k) = bitlen k - 1"
proof -
  have q: "quotient_of (of_int k :: rat) = (k, 1)"
    using quotient_of_int [of k] by (simp add: Rat.of_int_def)
  have one: "bitlen (1::int) = 1" by (simp add: bitlen_alt_def)
  from assms have "1 \<le> bitlen k" by (auto simp: bitlen_alt_def)
  then have nonneg: "0 \<le> bitlen k - 1" by simp
  from bitlen_bounds [OF assms] have "(2::int) ^ nat (bitlen k - 1) \<le> k" by simp
  then have "(of_int ((2::int) ^ nat (bitlen k - 1)) :: rat) \<le> of_int k"
    by (simp only: of_int_le_iff)
  then have "pow2 (bitlen k - 1) \<le> of_int k"
    using nonneg by (simp add: pow2_def)
  with q one show ?thesis
    by (simp add: floor_log2_def)
qed

lemma pow2_neg: "pow2 (- int m) = 1 / 2 ^ m"
  by (simp add: pow2_def)

lemma nearest_double_of_pos_int:
  assumes "0 < k" and "k < 2 ^ 53"
  shows "nearest_double (of_int k) = of_int k"
proof -
  from assms(1) have lo: "1 \<le> bitlen k" by (auto simp: bitlen_alt_def)
  from assms(2) have hi: "bitlen k \<le> 53" by (simp add: bitlen_le_iff_power)
  define m where "m = nat (53 - bitlen k)"
  from lo hi have e: "bitlen k - 1 - 52 = - int m" by (simp add: m_def)
  have ulp: "pow2 (max (floor_log2 \<bar>of_int k\<bar>) (- 1022) - 52) = 1 / 2 ^ m"
    using assms(1) lo e by (simp add: floor_log2_of_int max_def pow2_neg)
  have "\<bar>of_int k :: rat\<bar> / (1 / 2 ^ m) = of_int (k * 2 ^ m)"
    using assms(1) by simp
  then have r: "round_half_even (\<bar>of_int k :: rat\<bar> / (1 / 2 ^ m)) = k * 2 ^ m"
    by (simp only: round_half_even_of_int)
  from assms(1) have nz: "(of_int k :: rat) \<noteq> 0" and sg: "sgn (of_int k :: rat) = 1"
    by simp_all
  show ?thesis
    unfolding nearest_double_def Let_def ulp r using nz sg by simp
qed

lemma to_number_of_pos_int:
  assumes "0 < k" and "k < 2 ^ 53"
  shows "to_number (of_int k) = Finite (of_int k)"
proof -
  have "(2::int) ^ 53 \<le> 2 ^ 1024 - 2 ^ 970" by simp
  with assms(2) have "k < 2 ^ 1024 - 2 ^ 970" by linarith
  then have "(of_int k :: rat) < of_int (2 ^ 1024 - 2 ^ 970)" by (simp only: of_int_less_iff)
  then have "(of_int k :: rat) < overflow_threshold" by (simp add: overflow_threshold_def)
  moreover from assms(1) have "(0::rat) < of_int k" by simp
  moreover have "(0::rat) < overflow_threshold" by (simp add: overflow_threshold_def)
  ultimately show ?thesis
    using nearest_double_of_pos_int [OF assms] by (simp add: to_number_def)
qed

text \<open>Rounding does not make a value that is zero or negative positive.\<close>

lemma pow2_pos: "0 < pow2 e"
  by (simp add: pow2_def)

lemma round_half_even_nonneg: "0 \<le> x \<Longrightarrow> 0 \<le> round_half_even x"
  by (simp add: round_half_even_def Let_def)

lemma nearest_double_nonpos:
  assumes "r \<le> 0"
  shows "nearest_double r \<le> 0"
proof (cases "r = 0")
  case True
  then show ?thesis by (simp add: nearest_double_def)
next
  case False
  with assms have neg: "r < 0" by simp
  define ulp where "ulp = pow2 (max (floor_log2 \<bar>r\<bar>) (- 1022) - 52)"
  have "0 < ulp" by (simp add: ulp_def pow2_pos)
  then have "0 \<le> \<bar>r\<bar> / ulp" by simp
  then have "0 \<le> round_half_even (\<bar>r\<bar> / ulp)" by (rule round_half_even_nonneg)
  then have "(0::rat) \<le> of_int (round_half_even (\<bar>r\<bar> / ulp)) * ulp"
    using \<open>0 < ulp\<close> by simp
  moreover have "nearest_double r = - (of_int (round_half_even (\<bar>r\<bar> / ulp)) * ulp)"
    using neg False by (simp add: nearest_double_def Let_def ulp_def)
  ultimately show ?thesis by simp
qed

lemma overflow_threshold_pos: "0 < overflow_threshold"
  by (simp add: overflow_threshold_def)

lemma to_number_nonpos: "r \<le> 0 \<Longrightarrow> num_le (to_number r) (Finite 0)"
  using nearest_double_nonpos [of r] overflow_threshold_pos
  by (auto simp: to_number_def num_le_def num_eq_def)

section \<open>Verification: customPadStart\<close>

text \<open>
  With an empty \<open>padString\<close> the loop appends nothing and its condition stays true:
  no call of \<open>pad_loop\<close> that enters the loop body returns or throws.
\<close>

lemma pad_loop_empty_padString:
  assumes "pad_loop L r p n = Some y"
  shows "p = [] \<longrightarrow> \<not> num_lt (Finite (of_nat (length r))) n \<or> L < length r"
  by (rule pad_loop.raw_induct
        [where P = "\<lambda>L r p n y. p = [] \<longrightarrow> \<not> num_lt (Finite (of_nat (length r))) n \<or> L < length r",
         OF _ assms])
     (auto simp: string_concat_def split: if_splits string_result.splits)

lemma pad_loop_never_returns:
  "num_lt (Finite 0) needed \<Longrightarrow> pad_loop L [] [] needed = None"
  using pad_loop_empty_padString [of L "[]" "[]" needed]
  by (cases "pad_loop L [] [] needed") auto

text \<open>
  With a non-empty \<open>padString\<close> and room for the last round, the loop returns, after
  some number \<open>k\<close> of rounds, the start value followed by \<open>k\<close> copies of \<open>padString\<close>,
  long enough for \<open>needed\<close>.
\<close>

lemma pad_loop_returns:
  assumes "p \<noteq> []" and room: "q + of_nat (length p) \<le> of_nat L + 1"
  shows "\<exists>k. pad_loop L r p (Finite q) = Some (Returns (r @ concat (replicate k p))) \<and>
             q \<le> of_nat (length (r @ concat (replicate k p)))"
proof (induction "nat \<lceil>q\<rceil> - length r" arbitrary: r rule: less_induct)
  case less
  show ?case
  proof (cases "of_nat (length r) < q")
    case False
    then have "pad_loop L r p (Finite q) = Some (Returns (r @ concat (replicate 0 p)))"
      by (subst pad_loop.simps) simp
    with False show ?thesis by (intro exI[of _ 0]) simp
  next
    case True
    from True room have "(of_nat (length r + length p) :: rat) < of_nat (L + 1)" by simp
    then have "length r + length p < L + 1" by (simp only: of_nat_less_iff)
    then have fits: "string_concat L r p = Returns (r @ p)"
      by (simp add: string_concat_def)
    from True have "of_nat (length r) < (of_int \<lceil>q\<rceil> :: rat)"
      using le_of_int_ceiling [of q] by linarith
    then have "int (length r) < \<lceil>q\<rceil>"
      by (metis of_int_less_iff of_int_of_nat_eq)
    then have "length r < nat \<lceil>q\<rceil>" by simp
    moreover from assms(1) have "1 \<le> length p" by (cases p) auto
    ultimately have "nat \<lceil>q\<rceil> - length (r @ p) < nat \<lceil>q\<rceil> - length r"
      unfolding length_append by linarith
    from less.hyps[OF this] obtain k where
      k: "pad_loop L (r @ p) p (Finite q) = Some (Returns ((r @ p) @ concat (replicate k p)))"
         "q \<le> of_nat (length ((r @ p) @ concat (replicate k p)))" by blast
    from True fits k(1)
    have "pad_loop L r p (Finite q) = Some (Returns (r @ concat (replicate (Suc k) p)))"
      by (subst pad_loop.simps) simp
    with k(2) show ?thesis by (intro exI[of _ "Suc k"]) simp
  qed
qed

lemma length_concat_replicate: "length (concat (replicate k p)) = k * length p"
  by (induction k) auto

lemma take_concat_replicate_le:
  assumes n: "n \<le> length (concat (replicate k p))" and km: "k \<le> m"
  shows "take n (concat (replicate m p)) = take n (concat (replicate k p))"
proof -
  from km obtain d where "m = k + d" using le_Suc_ex by blast
  then have "concat (replicate m p) = concat (replicate k p) @ concat (replicate d p)"
    by (simp add: replicate_add)
  with n show ?thesis by simp
qed

lemma take_concat_replicate_any:
  assumes "n \<le> length (concat (replicate k p))" "n \<le> length (concat (replicate m p))"
  shows "take n (concat (replicate k p)) = take n (concat (replicate m p))"
proof (cases "k \<le> m")
  case True
  from take_concat_replicate_le[OF assms(1) True] show ?thesis by (rule sym)
next
  case False
  then have "m \<le> k" by simp
  from take_concat_replicate_le[OF assms(2) this] show ?thesis .
qed

lemma enough_copies:
  assumes "p \<noteq> []"
  shows "n \<le> length (concat (replicate n p))"
proof -
  from assms have "1 \<le> length p" by (cases p) auto
  then have "n * 1 \<le> n * length p" by (rule mult_le_mono2)
  then show ?thesis by (simp add: length_concat_replicate)
qed

lemma slice_prefix:
  assumes "0 < n" and "n \<le> length s"
  shows "slice s (Finite 0) (Finite (of_nat n)) = take n s"
  using assms by (simp add: slice_def slice_bound_def Let_def min_def)

text \<open>
  What the function does return. For an integer \<open>targetLength\<close> below \<open>2^53\<close> that is
  greater than the receiver's length and a \<open>padString\<close> that is not empty, with room
  for the strings built on the way, the result is the first \<open>targetLength - length\<close>
  code units of the repeated \<open>padString\<close> followed by the receiver.
\<close>

lemma customPadStart_pads:
  assumes pad: "padString_of padArg \<noteq> []"
    and shorter: "length str < t" and small: "t < 2 ^ 53"
    and room: "t - length str + length (padString_of padArg) \<le> L + 1" and fits: "t \<le> L"
  shows "customPadStart L str (Finite (of_nat t)) padArg =
         Some (Returns (take (t - length str)
                          (concat (replicate (t - length str) (padString_of padArg))) @ str))"
proof -
  define n where "n = t - length str"
  define p where "p = padString_of padArg"
  from shorter have npos: "0 < n" and t: "t = n + length str" by (simp_all add: n_def)
  from small t have "int n < 2 ^ 53" by simp
  with npos have "to_number (of_int (int n)) = Finite (of_int (int n))"
    by (intro to_number_of_pos_int) simp_all
  then have needed: "num_sub (Finite (of_nat t)) (Finite (of_nat (length str))) = Finite (of_nat n)"
    by (simp add: num_sub_def t)
  from room have "(of_nat (n + length p) :: rat) \<le> of_nat (L + 1)"
    unfolding n_def p_def by (simp only: of_nat_le_iff)
  then have room': "(of_nat n :: rat) + of_nat (length p) \<le> of_nat L + 1" by simp
  from pad have pne: "p \<noteq> []" by (simp add: p_def)
  from pad_loop_returns [OF pne room', of "[]"] obtain k where
    k: "pad_loop L [] p (Finite (of_nat n)) = Some (Returns (concat (replicate k p)))"
       "(of_nat n :: rat) \<le> of_nat (length (concat (replicate k p)))" by auto
  from k(2) have len: "n \<le> length (concat (replicate k p))" by (simp only: of_nat_le_iff)
  from take_concat_replicate_any [OF len enough_copies [OF pne]]
  have eq: "take n (concat (replicate k p)) = take n (concat (replicate n p))" .
  have sl: "slice (concat (replicate k p)) (Finite 0) (Finite (of_nat n)) =
            take n (concat (replicate n p))"
    using slice_prefix [OF npos len] eq by simp
  from len fits t have cc: "string_concat L (take n (concat (replicate n p))) str =
            Returns (take n (concat (replicate n p)) @ str)"
    using enough_copies [OF pne, of n] by (simp add: string_concat_def min_def)
  from npos have "\<not> num_le (Finite (of_nat n)) (Finite 0)"
    by (simp add: num_le_def num_eq_def)
  then show ?thesis
    unfolding customPadStart_def Let_def needed p_def [symmetric] n_def [symmetric]
    by (simp add: k(1) sl cc)
qed

text \<open>
  For every \<open>padString\<close>, the empty one included, a receiver at least as long as a
  finite \<open>targetLength\<close> is returned unchanged; so it is for \<open>NaN\<close>.
\<close>

lemma customPadStart_not_shorter:
  assumes "t \<le> of_nat (length str)"
  shows "customPadStart L str (Finite t) padArg = Some (Returns str)"
proof -
  from assms have "t + - of_nat (length str) \<le> (0::rat)" by simp
  then have "num_le (num_sub (Finite t) (Finite (of_nat (length str)))) (Finite 0)"
    by (simp add: num_sub_def to_number_nonpos)
  then show ?thesis by (simp add: customPadStart_def)
qed

lemma customPadStart_NaN:
  "length str \<le> L \<Longrightarrow> customPadStart L str NaN padArg = Some (Returns str)"
  by (simp add: customPadStart_def num_sub_def num_le_def num_eq_def pad_loop.simps
        slice_def slice_bound_def string_concat_def)

text \<open>
  The three calls of the source file return what its comments say; a \<open>targetLength\<close>
  with a fraction is cut to the integer below it by \<open>slice\<close>
  (\<open>"7".customPadStart(2.5, "0")\<close> is \<open>"07"\<close>); and with \<open>Infinity\<close> the string grows
  until the concatenation throws.
\<close>

lemma customPadStart_documented_calls:
  assumes "10 \<le> L"
  shows "customPadStart L ''7'' (Finite 3) (Some ''0'') = Some (Returns ''007'') \<and>
         customPadStart L ''Mucyo'' (Finite 10) (Some ''-'') = Some (Returns ''-----Mucyo'') \<and>
         customPadStart L ''42'' (Finite 5) None = Some (Returns ''   42'')"
proof -
  have small: "(3::nat) < 2 ^ 53" "(10::nat) < 2 ^ 53" "(5::nat) < 2 ^ 53" by simp_all
  have "customPadStart L ''7'' (Finite (of_nat 3)) (Some ''0'') = Some (Returns ''007'')"
    using assms by (subst customPadStart_pads [OF _ _ small(1)])
      (simp_all add: padString_of_def numeral_3_eq_3 numeral_2_eq_2)
  moreover
  have "customPadStart L ''Mucyo'' (Finite (of_nat 10)) (Some ''-'') =
        Some (Returns ''-----Mucyo'')"
    using assms by (subst customPadStart_pads [OF _ _ small(2)])
      (simp_all add: padString_of_def eval_nat_numeral)
  moreover
  have "customPadStart L ''42'' (Finite (of_nat 5)) None = Some (Returns ''   42'')"
    using assms by (subst customPadStart_pads [OF _ _ small(3)])
      (simp_all add: padString_of_def eval_nat_numeral)
  ultimately show ?thesis by simp
qed

lemma nearest_double_3_halves: "nearest_double (3 / 2) = 3 / 2"
  by code_simp

lemma floor_3_halves: "\<lfloor>3 / 2 :: rat\<rfloor> = 1"
  by (simp add: floor_eq_iff)

lemma customPadStart_fraction:
  assumes "2 \<le> L"
  shows "customPadStart L ''7'' (Finite (5 / 2)) (Some ''0'') = Some (Returns ''07'')"
proof -
  have needed: "num_sub (Finite (5 / 2)) (Finite (of_nat (length ''7''))) = Finite (3 / 2)"
    by (simp add: num_sub_def to_number_def overflow_threshold_def nearest_double_3_halves)
  have "pad_loop L [] ''0'' (Finite (3 / 2)) = Some (Returns ''00'')"
    using assms by (simp add: pad_loop.simps string_concat_def)
  then show ?thesis
    unfolding customPadStart_def Let_def needed using assms
    by (simp add: padString_of_def num_le_def num_eq_def slice_def slice_bound_def
          string_concat_def floor_3_halves)
qed

lemma pad_loop_Infinity:
  assumes "p \<noteq> []" and "length r \<le> L"
  shows "pad_loop L r p PosInfinity = Some ThrowsRangeError"
  using assms(2)
proof (induction "L - length r" arbitrary: r rule: less_induct)
  case less
  from assms(1) have p: "1 \<le> length p" by (cases p) auto
  show ?case
  proof (cases "L < length r + length p")
    case True
    then show ?thesis by (subst pad_loop.simps) (simp add: string_concat_def)
  next
    case False
    with p have "L - length (r @ p) < L - length r" and "length (r @ p) \<le> L"
      unfolding length_append by linarith+
    from less.hyps [OF this] False show ?thesis
      by (subst pad_loop.simps) (simp add: string_concat_def)
  qed
qed

lemma customPadStart_Infinity:
  "padString_of padArg \<noteq> [] \<Longrightarrow>
   customPadStart L str PosInfinity padArg = Some ThrowsRangeError"
  by (simp add: customPadStart_def num_sub_def num_le_def num_eq_def pad_loop_Infinity)

lemma three_minus_one: "num_sub (Finite 3) (Finite (of_nat (length ''7''))) = Finite 2"
proof -
  have "nearest_double 2 = 2" using nearest_double_power2 [of 1] by simp
  then show ?thesis
    by (simp add: num_sub_def to_number_def overflow_threshold_def)
qed

text \<open>
  C1, at the input where the code departs from it. In \<open>"7".customPadStart(3, "")\<close> the
  receiver is shorter than \<open>targetLength\<close>, \<open>needed\<close> is 2, and the loop appends the
  empty \<open>padString\<close> to the empty \<open>repeated\<close> for ever: whatever the greatest string
  length, the call neither returns a string nor throws.
\<close>

theorem customPadStart_empty_padString_never_returns:
  "customPadStart maxLength ''7'' (Finite 3) (Some []) = None"
proof -
  have "pad_loop maxLength [] [] (Finite 2) = None"
    by (rule pad_loop_never_returns) simp
  then show ?thesis
    unfolding customPadStart_def Let_def three_minus_one
    by (simp add: padString_of_def num_le_def num_eq_def)
qed

section \<open>Verification: the bank accounts\<close>

text \<open>
  C2 (as amended). Neither \<open>withdraw\<close> setter throws on an invalid amount: for every
  amount that is negative or exceeds the current balance, \<open>BankOfKigali.withdraw\<close> and
  \<open>BankAccount.withdraw\<close> return normally, leave the object as it was and write one
  message to the console (\<open>Amount should be positive\<close> or \<open>Insufficient Funds!\<close>;
  \<open>Withdrawal must be positive.\<close> or \<open>Insufficient funds.\<close>).
\<close>

theorem withdraw_invalid_amount_returns:
  "(num_lt amount (Finite 0) \<or> num_gt amount (get_accountBalance this) \<longrightarrow>
      set_withdraw this amount =
        Outcome Returned this
          [console_log [S (if num_lt amount (Finite 0) then ''Amount should be positive''
                           else ''Insufficient Funds!'')]]) \<and>
   (num_lt amount (Finite 0) \<or> num_gt amount (get_balance acct) \<longrightarrow>
      BankAccount_set_withdraw acct amount =
        Outcome Returned acct
          [console_log [S (if num_le amount (Finite 0) then ''Withdrawal must be positive.''
                           else ''Insufficient funds.'')]])"
  by (auto simp: set_withdraw_def BankAccount_set_withdraw_def get_balance_def num_le_def)

text \<open>
  The withdrawals of the two demonstrations that exceed the balance: 1000000 from 200, and
  700 from 400; and a negative amount.
\<close>

theorem withdraw_invalid_amount_returns_witness:
  "num_gt (Finite 1000000)
     (get_accountBalance \<lparr>priv_accountBalance = Finite 200, priv_loanBalance = Finite 0\<rparr>) \<and>
   set_withdraw \<lparr>priv_accountBalance = Finite 200, priv_loanBalance = Finite 0\<rparr>
       (Finite 1000000) =
     Outcome Returned \<lparr>priv_accountBalance = Finite 200, priv_loanBalance = Finite 0\<rparr>
       [console_log [S ''Insufficient Funds!'']] \<and>
   num_gt (Finite 700) (get_balance \<lparr>priv_balance = Finite 400\<rparr>) \<and>
   BankAccount_set_withdraw \<lparr>priv_balance = Finite 400\<rparr> (Finite 700) =
     Outcome Returned \<lparr>priv_balance = Finite 400\<rparr> [console_log [S ''Insufficient funds.'']] \<and>
   num_lt (Finite (- 5)) (Finite 0) \<and>
   set_withdraw new_BankOfKigali (Finite (- 5)) =
     Outcome Returned new_BankOfKigali [console_log [S ''Amount should be positive'']] \<and>
   BankAccount_set_withdraw new_BankAccount (Finite (- 5)) =
     Outcome Returned new_BankAccount [console_log [S ''Withdrawal must be positive.'']]"
  using withdraw_invalid_amount_returns
          [of "Finite 1000000"
              "\<lparr>priv_accountBalance = Finite 200, priv_loanBalance = Finite 0\<rparr>"
              "\<lparr>priv_balance = Finite 400\<rparr>"]
        withdraw_invalid_amount_returns
          [of "Finite 700"
              "\<lparr>priv_accountBalance = Finite 200, priv_loanBalance = Finite 0\<rparr>"
              "\<lparr>priv_balance = Finite 400\<rparr>"]
        withdraw_invalid_amount_returns
          [of "Finite (- 5)" new_BankOfKigali new_BankAccount]
  by (simp add: num_gt_def num_le_def num_eq_def get_accountBalance_def get_balance_def)

text \<open>
  A negative amount on a new \<open>BankOfKigali\<close>, and an amount above the balance of a new
  \<open>BankAccount\<close>: both setters return; nothing is thrown.
\<close>

theorem withdraw_invalid_amount_counterexample:
  "num_lt (Finite (- 1)) (Finite 0) \<and>
   completion (set_withdraw new_BankOfKigali (Finite (- 1))) = Returned \<and>
   num_gt (Finite 1) (get_balance new_BankAccount) \<and>
   completion (BankAccount_set_withdraw new_BankAccount (Finite 1)) = Returned"
  by (simp add: set_withdraw_def BankAccount_set_withdraw_def new_BankAccount_def
        get_balance_def num_gt_def num_le_def num_eq_def)

text \<open>
  C6. When \<open>BankOfKigali.withdraw\<close> is called with a non-negative amount that equals the
  current account balance, no branch is taken: the setter returns without an error, the
  object is unchanged, and nothing is written to the console.
\<close>

theorem withdraw_whole_balance_falls_through:
  assumes "num_ge amount (Finite 0)" and "num_eq amount (get_accountBalance this)"
  shows "set_withdraw this amount = Outcome Returned this []"
proof -
  from assms(1) have "\<not> num_lt amount (Finite 0)"
    by (auto simp: num_ge_def num_le_def num_eq_def num_lt_irrefl dest: num_lt_asym)
  moreover from assms(2) have "get_accountBalance this = amount"
    by (simp add: num_eq_def)
  ultimately show ?thesis
    by (simp add: set_withdraw_def num_gt_def num_lt_irrefl)
qed

theorem withdraw_whole_balance_falls_through_witness:
  "num_ge (Finite 200) (Finite 0) \<and>
   num_eq (Finite 200)
     (get_accountBalance \<lparr>priv_accountBalance = Finite 200, priv_loanBalance = Finite 0\<rparr>) \<and>
   set_withdraw \<lparr>priv_accountBalance = Finite 200, priv_loanBalance = Finite 0\<rparr> (Finite 200) =
     Outcome Returned \<lparr>priv_accountBalance = Finite 200, priv_loanBalance = Finite 0\<rparr> []"
proof -
  have a: "num_ge (Finite 200) (Finite 0)"
    by (simp add: num_ge_def num_le_def)
  have b: "num_eq (Finite 200)
     (get_accountBalance \<lparr>priv_accountBalance = Finite 200, priv_loanBalance = Finite 0\<rparr>)"
    by (simp add: num_eq_def get_accountBalance_def)
  from withdraw_whole_balance_falls_through [OF a b] a b show ?thesis by simp
qed

text \<open>
  An operation of \<open>BankOfKigali\<close> that throws has written no field: every \<open>throw\<close> comes
  before the assignment of its setter.
\<close>

lemma bank_step_throw_keeps_fields:
  "completion (bank_step this op) = Threw e \<Longrightarrow> object (bank_step this op) = this"
  by (cases op)
     (auto simp: set_deposit_def set_withdraw_def set_accountBalance_def set_loanBalance_def
           Let_def split: if_splits)

text \<open>\<open>2^1023\<close> is a double, and twice it is beyond the largest one.\<close>

lemma nearest_double_2_1023: "nearest_double (2 ^ 1023) = 2 ^ 1023"
  by (rule nearest_double_power2)

lemma deposit_twice_overflows:
  assumes "nearest_double x = x" and "0 \<le> x" and "x < overflow_threshold"
    and "overflow_threshold \<le> x + x"
  shows "completion (bank_step new_BankOfKigali (Deposit (Finite x))) = Returned \<and>
         completion (bank_step (bank_run new_BankOfKigali [Deposit (Finite x)])
                       (Deposit (Finite x))) = Returned \<and>
         priv_accountBalance
           (bank_run new_BankOfKigali [Deposit (Finite x), Deposit (Finite x)]) = PosInfinity"
proof -
  from assms(2,3) have "\<not> overflow_threshold \<le> x" "\<not> x \<le> - overflow_threshold"
    by simp_all
  with assms(1) have "to_number x = Finite x"
    by (simp add: to_number_def)
  moreover from assms(4) have "to_number (x + x) = PosInfinity"
    by (simp add: to_number_def)
  ultimately show ?thesis using assms(2)
    by (simp add: new_BankOfKigali_def set_deposit_def Let_def)
qed

text \<open>
  C7, at the input where the code departs from it. On a new \<open>BankOfKigali\<close>, two deposits
  of \<open>2^1023\<close> (about \<open>8.99e307\<close>) both return normally, and afterwards
  \<open>_accountBalance\<close> is \<open>Infinity\<close>: \<open>deposit\<close> tests that the amount is finite and then
  adds it to the field directly, without the test that the setter \<open>accountBalance\<close>
  makes on every value it stores.
\<close>

theorem deposit_overflows_to_Infinity:
  "completion (bank_step new_BankOfKigali (Deposit (Finite (2 ^ 1023)))) = Returned \<and>
   completion (bank_step (bank_run new_BankOfKigali [Deposit (Finite (2 ^ 1023))])
                 (Deposit (Finite (2 ^ 1023)))) = Returned \<and>
   priv_accountBalance
     (bank_run new_BankOfKigali [Deposit (Finite (2 ^ 1023)), Deposit (Finite (2 ^ 1023))])
     = PosInfinity"
proof (rule deposit_twice_overflows)
  show "nearest_double (2 ^ 1023) = 2 ^ 1023" by (rule nearest_double_2_1023)
  show "(0::rat) \<le> 2 ^ 1023" by simp
  show "(2::rat) ^ 1023 < overflow_threshold" by (simp add: overflow_threshold_def)
  show "overflow_threshold \<le> (2::rat) ^ 1023 + 2 ^ 1023" by (simp add: overflow_threshold_def)
qed

section \<open>Verification: the promises\<close>

text \<open>
  C3. With the drawn number as input, \<open>examplePromise\<close> is fulfilled with its success
  message exactly when the number is greater than 0.5 and is rejected with its
  \<open>Error\<close> otherwise; of the handlers of \<open>.then(...).catch(...)\<close> exactly one runs, the
  first (\<open>console.log\<close>) in the one case and the second (\<open>console.error\<close>) in the other.
  \<open>promise_3\<close> settles by the same test.
\<close>

theorem examplePromise_settles:
  "examplePromise r =
     (if num_gt r (Finite (1 / 2)) then Fulfilled ''The Promise resolved successfully''
      else Rejected (Error ''The promises failed to resolve.......! try to handle the error!'')) \<and>
   examplePromise_handlers r =
     (if num_gt r (Finite (1 / 2))
      then [console_log [S ''The Promise resolved successfully'']]
      else [console_error
              [S ''Error'',
               S ''The promises failed to resolve.......! try to handle the error!'']]) \<and>
   state (promise_3 r) =
     (if num_gt r (Finite (1 / 2)) then Fulfilled ''Promise 3 resolves successfully ''
      else Rejected (Error ''There is Error resolving the promse Three!!''))"
  by (simp add: examplePromise_def examplePromise_handlers_def promise_3_def resolve_def
        reject_def promise_then_def promise_catch_def)

theorem examplePromise_settles_witness:
  "examplePromise (Finite (3 / 4)) = Fulfilled ''The Promise resolved successfully'' \<and>
   examplePromise_handlers (Finite (3 / 4)) =
     [console_log [S ''The Promise resolved successfully'']] \<and>
   examplePromise (Finite (1 / 2)) =
     Rejected (Error ''The promises failed to resolve.......! try to handle the error!'') \<and>
   examplePromise_handlers (Finite (1 / 2)) =
     [console_error
        [S ''Error'', S ''The promises failed to resolve.......! try to handle the error!'']] \<and>
   state (promise_3 (Finite (1 / 4))) =
     Rejected (Error ''There is Error resolving the promse Three!!'')"
  using examplePromise_settles [of "Finite (3 / 4)"] examplePromise_settles [of "Finite (1 / 2)"]
        examplePromise_settles [of "Finite (1 / 4)"]
  by (simp add: num_gt_def)

text \<open>
  C4. \<open>promise_1\<close> and \<open>promise_2\<close> are always fulfilled, so the promise of
  \<open>Promise.all([promise_1, promise_2, promise_3])\<close> is rejected if and only if
  \<open>promise_3\<close> is, which for a drawn (finite) number is when it is at most 0.5; it is then
  rejected with the error of \<open>promise_3\<close>, at once. Otherwise it is fulfilled, once
  \<open>promise_1\<close> has settled after 2000 ms, with the three messages in the order of the
  array, although the promises settle in the opposite order.
\<close>

theorem Promise_all_demo_settles:
  "Promise_all_demo r =
     (if num_gt r (Finite (1 / 2))
      then Promise 2000
             (Fulfilled [''Promise 1 resoved successfully'', ''Promise 2 resolved Now!'',
                         ''Promise 3 resolves successfully ''])
      else Promise 0 (Rejected (Error ''There is Error resolving the promse Three!!''))) \<and>
   state promise_1 = Fulfilled ''Promise 1 resoved successfully'' \<and>
   state promise_2 = Fulfilled ''Promise 2 resolved Now!'' \<and>
   ((\<exists>e. state (Promise_all_demo r) = Rejected e) = (\<exists>e. state (promise_3 r) = Rejected e)) \<and>
   ((\<exists>e. state (Promise_all_demo (Finite q)) = Rejected e) = (q \<le> 1 / 2)) \<and>
   Promise_all_handlers r =
     (if num_gt r (Finite (1 / 2))
      then [console_log [A [S ''Promise 1 resoved successfully'', S ''Promise 2 resolved Now!'',
                            S ''Promise 3 resolves successfully '']]]
      else [console_error [S ''There was an error resolving one of the promises'',
                           S ''There is Error resolving the promse Three!!'']])"
  by (auto simp: Promise_all_handlers_def Promise_all_demo_def Promise_all_def promise_1_def
        promise_2_def promise_3_def resolve_def reject_def num_gt_def promise_then_def
        promise_catch_def)

theorem Promise_all_demo_settles_witness:
  "state (Promise_all_demo (Finite (3 / 4))) =
     Fulfilled [''Promise 1 resoved successfully'', ''Promise 2 resolved Now!'',
                ''Promise 3 resolves successfully ''] \<and>
   state (Promise_all_demo (Finite (1 / 4))) =
     Rejected (Error ''There is Error resolving the promse Three!!'')"
  using Promise_all_demo_settles [of "Finite (3 / 4)"]
        Promise_all_demo_settles [of "Finite (1 / 4)"]
  by (simp add: num_gt_def)

section \<open>Verification: Stack\<close>

text \<open>
  Along any sequence of calls, the items held at the end and the successful pops
  together account for the items held at the start and the pushes.
\<close>

lemma run_counts:
  "length (items (run this cs)) + successful_pops this cs = length (items this) + pushes cs"
proof (induction cs arbitrary: this)
  case Nil
  then show ?case by simp
next
  case (Cons c cs)
  show ?case
  proof (cases c)
    case (Push x)
    with Cons[of "push this x"] show ?thesis by (simp add: push_def)
  next
    case Pop
    with Cons[of "snd (pop this)"] show ?thesis
      by (cases "items this = []") (simp_all add: pop_def array_pop_def)
  next
    case Peek
    with Cons[of this] show ?thesis by (simp add: peek_def)
  next
    case IsEmpty
    with Cons[of this] show ?thesis by (simp add: isEmpty_def)
  qed
qed

text \<open>
  C5. For every stack \<open>s\<close> and element \<open>x\<close>, \<open>pop()\<close> right after \<open>push(x)\<close> returns
  \<open>x\<close> and leaves the stack equal to \<open>s\<close>; on a stack with no items \<open>pop()\<close> and
  \<open>peek()\<close> return \<open>undefined\<close>; \<open>peek()\<close> never changes the stack (and returns the last
  item pushed when there is one); and after any sequence of calls on a new stack,
  \<open>isEmpty()\<close> is true exactly when the number of pushes equals the number of successful
  pops.
\<close>

theorem Stack_last_in_first_out:
  "pop (push s x) = (Some x, s) \<and>
   (items s = [] \<longrightarrow> pop s = (None, s) \<and> fst (peek s) = None) \<and>
   snd (peek s) = s \<and>
   (items s \<noteq> [] \<longrightarrow> fst (peek s) = Some (last (items s))) \<and>
   fst (isEmpty (run new_Stack cs)) = (pushes cs = successful_pops new_Stack cs)"
proof -
  have "pop (push s x) = (Some x, s)"
    by (simp add: pop_def push_def array_pop_def)
  moreover have "items s = [] \<longrightarrow> pop s = (None, s) \<and> fst (peek s) = None"
    by (simp add: pop_def peek_def array_pop_def array_index_def)
  moreover have "snd (peek s) = s"
    by (simp add: peek_def)
  moreover have "items s \<noteq> [] \<longrightarrow> fst (peek s) = Some (last (items s))"
    by (cases "items s" rule: rev_cases) (simp_all add: peek_def array_index_def nth_append)
  moreover have "fst (isEmpty (run new_Stack cs)) = (pushes cs = successful_pops new_Stack cs)"
    using run_counts [of new_Stack cs] by (auto simp: isEmpty_def new_Stack_def)
  ultimately show ?thesis by blast
qed

theorem Stack_last_in_first_out_witness:
  "pop (push \<lparr>items = [10::int]\<rparr> 20) = (Some 20, \<lparr>items = [10]\<rparr>) \<and>
   items (new_Stack :: int Stack) = [] \<and>
   pop (new_Stack :: int Stack) = (None, new_Stack) \<and>
   fst (peek (new_Stack :: int Stack)) = None \<and>
   items \<lparr>items = [10::int, 20]\<rparr> \<noteq> [] \<and>
   peek \<lparr>items = [10::int, 20]\<rparr> = (Some 20, \<lparr>items = [10, 20]\<rparr>) \<and>
   fst (isEmpty (run new_Stack [Push (10::int), Pop, Pop, Push 20, Peek, Pop])) \<and>
   \<not> fst (isEmpty (run new_Stack [Pop, Push (10::int), Push 20, Pop]))"
  using Stack_last_in_first_out
          [of "\<lparr>items = [10::int]\<rparr>" 20 "[Push (10::int), Pop, Pop, Push 20, Peek, Pop]"]
        Stack_last_in_first_out
          [of "new_Stack :: int Stack" 0 "[Pop, Push (10::int), Push 20, Pop]"]
        Stack_last_in_first_out [of "\<lparr>items = [10::int, 20]\<rparr>" 0 "[] :: int call list"]
  by (simp add: new_Stack_def push_def pop_def peek_def isEmpty_def array_pop_def
        array_index_def)

end
